theory Spec2Isabelle
  imports Complex_Main
begin

text \<open>
  The program is a command-line crawler.  Its action handler \<open>main\<close> checks the API
  credential and the required arguments, asks the flight-offer service for each of
  fifteen consecutive days, keeps the offers below a price and inside a range of
  departure hours, and hands a report in text and in HTML to the \<open>Mailer\<close>.

  The handler is modelled as a function of the arguments and of an environment that
  holds what the platform decides (process variables, time zone, date parsing and
  formatting, the responses of the service); it returns the effects of the run in
  order and the way the process ends.  The model follows the handler that has the
  options \<open>mail\<close> and \<open>hourRange\<close>.  Names are those of the source; \<open>adults'\<close> and
  \<open>children'\<close> stand for \<open>_adults\<close> and \<open>_children\<close>.
\<close>

section \<open>JavaScript values used by the crawler\<close>

text \<open>
  A JavaScript number is either NaN or a finite number; the comparisons \<open><\<close> and
  \<open>>\<close> are false as soon as one side is NaN.  Infinite values do not occur in the
  crawler.
\<close>

datatype jsnum = JNaN | JNum real

fun jsLess :: "jsnum \<Rightarrow> jsnum \<Rightarrow> bool" where
  "jsLess (JNum x) (JNum y) = (x < y)"
| "jsLess _ _ = False"

text \<open>A value that is a string, a number or a boolean (an entry of \<open>params\<close>, a bound
  of the hour range).\<close>

datatype jsval = S string | N real | B bool

subsection \<open>Strings\<close>

text \<open>
  Strings are lists of characters, one \<open>char\<close> per UTF-16 code unit of the source
  text.  The only non-ASCII characters of the source lie below U+0100 and are written
  with their code point (\<open>CHR 0xE9\<close> is e-acute).
\<close>

definition isDigit :: "char \<Rightarrow> bool" where
  "isDigit c = (c \<in> set ''0123456789'')"

definition digitVal :: "char \<Rightarrow> nat" where
  "digitVal c = of_char c - 48"

text \<open>The value of a string of decimal digits, most significant digit first.\<close>

definition digitsVal :: "string \<Rightarrow> nat" where
  "digitsVal s = foldl (\<lambda>acc c. 10 * acc + digitVal c) 0 s"

definition digitChar :: "nat \<Rightarrow> char" where
  "digitChar n = ''0123456789'' ! n"

fun showNat :: "nat \<Rightarrow> string" where
  "showNat n = (if n < 10 then [digitChar n] else showNat (n div 10) @ [digitChar (n mod 10)])"

declare showNat.simps [simp del]

definition showInt :: "int \<Rightarrow> string" where
  "showInt i = (if i < 0 then ''-'' @ showNat (nat (- i)) else showNat (nat i))"

text \<open>\<open>padStart n\<close> pads a string of digits with zeros on the left to width \<open>n\<close>.\<close>

definition padStart :: "nat \<Rightarrow> string \<Rightarrow> string" where
  "padStart n s = replicate (n - length s) (CHR ''0'') @ s"

text \<open>\<open>String.prototype.split\<close> with a one-character separator: the result is never
  empty, and the empty string splits into one empty piece.\<close>

fun splitOn :: "char \<Rightarrow> string \<Rightarrow> string list" where
  "splitOn c [] = [[]]"
| "splitOn c (x # xs) =
     (if x = c then [] # splitOn c xs
      else (case splitOn c xs of w # ws \<Rightarrow> (x # w) # ws | [] \<Rightarrow> [[x]]))"

text \<open>\<open>Array.prototype.join\<close>.\<close>

fun joinWith :: "string \<Rightarrow> string list \<Rightarrow> string" where
  "joinWith sep [] = []"
| "joinWith sep [x] = x"
| "joinWith sep (x # y # ys) = x @ sep @ joinWith sep (y # ys)"

text \<open>White space as \<open>trim\<close> and the conversion to a number strip it (the characters
  below U+0100).\<close>

definition isSpace :: "char \<Rightarrow> bool" where
  "isSpace c = (of_char c \<in> set [9, 10, 11, 12, 13, 32, 160 :: nat])"

definition trim :: "string \<Rightarrow> string" where
  "trim s = rev (dropWhile isSpace (rev (dropWhile isSpace s)))"

text \<open>\<open>s.replace(/^0/, '')\<close>: one leading zero is dropped.\<close>

definition stripLeadingZero :: "string \<Rightarrow> string" where
  "stripLeadingZero s = (case s of [] \<Rightarrow> [] | c # cs \<Rightarrow> if c = CHR ''0'' then cs else s)"

text \<open>\<open>s.replace(/pat/g, rep)\<close> for a pattern that is a plain non-empty text: every
  occurrence, scanning from the left, without overlaps.\<close>

function replaceAll :: "string \<Rightarrow> string \<Rightarrow> string \<Rightarrow> string" where
  "replaceAll pat rep s =
     (if s = [] \<or> pat = [] then s
      else if take (length pat) s = pat then rep @ replaceAll pat rep (drop (length pat) s)
      else hd s # replaceAll pat rep (tl s))"
  by pat_completeness auto
termination
  by (relation "measure (\<lambda>(pat, rep, s). length s)") (auto simp: neq_Nil_conv)

declare replaceAll.simps [simp del]

text \<open>
  \<open>start.replace(/(\d{4})(\d{2})(\d{2})/, ...)\<close>: the first run of eight digits
  becomes \<open>dddd-dd-dd\<close>; a string without such a run is left as it is.
\<close>

fun formatStart :: "string \<Rightarrow> string" where
  "formatStart s =
     (if 8 \<le> length s \<and> list_all isDigit (take 8 s)
      then take 4 s @ ''-'' @ take 2 (drop 4 s) @ ''-'' @ take 2 (drop 6 s) @ drop 8 s
      else (case s of [] \<Rightarrow> [] | c # cs \<Rightarrow> c # formatStart cs))"

declare formatStart.simps [simp del]

section \<open>The platform: dates, time zone, formatting, network\<close>

subsection \<open>Time values\<close>

text \<open>
  A \<open>Date\<close> holds a time value: milliseconds since 1970-01-01T00:00Z.  Days are
  numbered from the same epoch; the civil calendar is the proleptic Gregorian one.
  Months are numbered from 1 here.
\<close>

definition msPerDay :: int where
  "msPerDay = 86400000"

definition Day :: "int \<Rightarrow> int" where
  "Day t = t div msPerDay"

definition TimeWithinDay :: "int \<Rightarrow> int" where
  "TimeWithinDay t = t mod msPerDay"

text \<open>The day number of a civil date; \<open>d\<close> may lie outside the month, as in
  \<open>MakeDay\<close>.\<close>

definition marchYear :: "int \<Rightarrow> int \<Rightarrow> int" where
  "marchYear y m = (if m \<le> 2 then y - 1 else y)"

definition marchMonth :: "int \<Rightarrow> int" where
  "marchMonth m = (if 2 < m then m - 3 else m + 9)"

definition daysFromMarch :: "int \<Rightarrow> int \<Rightarrow> int \<Rightarrow> int" where
  "daysFromMarch y' mp d =
     (y' div 400) * 146097 + (y' mod 400) * 365 + (y' mod 400) div 4 - (y' mod 400) div 100
     + (153 * mp + 2) div 5 + d - 1 - 719468"

definition daysFromCivil :: "int \<Rightarrow> int \<Rightarrow> int \<Rightarrow> int" where
  "daysFromCivil y m d = daysFromMarch (marchYear y m) (marchMonth m) d"

text \<open>
  The civil date of a day number: year, month and day of the month.  The day is first
  located in its 400-year era and in its year counted from the first of March.
\<close>

definition dayOfEra :: "int \<Rightarrow> int" where
  "dayOfEra z = (z + 719468) mod 146097"

definition yearOfEraAt :: "int \<Rightarrow> int" where
  "yearOfEraAt doe = (doe - doe div 1460 + doe div 36524 - doe div 146096) div 365"

definition yearOfEra :: "int \<Rightarrow> int" where
  "yearOfEra z = yearOfEraAt (dayOfEra z)"

definition dayOfYearAt :: "int \<Rightarrow> int \<Rightarrow> int" where
  "dayOfYearAt doe yoe = doe - (365 * yoe + yoe div 4 - yoe div 100)"

definition dayOfMarchYear :: "int \<Rightarrow> int" where
  "dayOfMarchYear z = dayOfYearAt (dayOfEra z) (yearOfEra z)"

definition marchMonthAt :: "int \<Rightarrow> int" where
  "marchMonthAt doy = (5 * doy + 2) div 153"

definition civilMonth :: "int \<Rightarrow> int" where
  "civilMonth mp = (if mp < 10 then mp + 3 else mp - 9)"

definition MonthFromDay :: "int \<Rightarrow> int" where
  "MonthFromDay z = civilMonth (marchMonthAt (dayOfMarchYear z))"

definition dateAt :: "int \<Rightarrow> int \<Rightarrow> int" where
  "dateAt doy mp = doy - (153 * mp + 2) div 5 + 1"

definition DateFromDay :: "int \<Rightarrow> int" where
  "DateFromDay z = dateAt (dayOfMarchYear z) (marchMonthAt (dayOfMarchYear z))"

definition civilYear :: "int \<Rightarrow> int \<Rightarrow> int \<Rightarrow> int" where
  "civilYear z yoe m = yoe + ((z + 719468) div 146097) * 400 + (if m \<le> 2 then 1 else 0)"

definition YearFromDay :: "int \<Rightarrow> int" where
  "YearFromDay z = civilYear z (yearOfEra z) (MonthFromDay z)"

definition isLeap :: "int \<Rightarrow> bool" where
  "isLeap y = (y mod 4 = 0 \<and> (y mod 400 = 0 \<or> y mod 100 \<noteq> 0))"

definition daysInMonth :: "int \<Rightarrow> int \<Rightarrow> int" where
  "daysInMonth y m =
     (if m = 2 then (if isLeap y then 29 else 28)
      else if m \<in> set [4, 6, 9, 11] then 30 else 31)"

text \<open>
  \<open>Date.parse\<close> on the date-only form \<open>YYYY-MM-DD\<close> of a date that exists: midnight
  UTC of that day.  Every other string is left to the platform's parser (below).
\<close>

definition isoFields :: "string \<Rightarrow> (int \<times> int \<times> int) option" where
  "isoFields s =
     (if length s = 10 \<and> s ! 4 = CHR ''-'' \<and> s ! 7 = CHR ''-''
         \<and> list_all isDigit (take 4 s @ take 2 (drop 5 s) @ drop 8 s)
      then Some (int (digitsVal (take 4 s)), int (digitsVal (take 2 (drop 5 s))),
                 int (digitsVal (drop 8 s)))
      else None)"

definition parseIsoDate :: "string \<Rightarrow> int option" where
  "parseIsoDate s =
     (case isoFields s of
        None \<Rightarrow> None
      | Some (y, m, d) \<Rightarrow>
          if 1 \<le> m \<and> m \<le> 12 \<and> 1 \<le> d \<and> d \<le> daysInMonth y m
          then Some (daysFromCivil y m d * msPerDay) else None)"

text \<open>\<open>TimeClip\<close>: a time value outside the range of \<open>Date\<close> is an invalid date.\<close>

definition TimeClip :: "int \<Rightarrow> int option" where
  "TimeClip v = (if 8640000000000000 < \<bar>v\<bar> then None else Some v)"

text \<open>\<open>Date.prototype.toISOString\<close> of a valid time value.\<close>

definition isoYear :: "int \<Rightarrow> string" where
  "isoYear y =
     (if 0 \<le> y \<and> y \<le> 9999 then padStart 4 (showNat (nat y))
      else (if y < 0 then ''-'' else ''+'') @ padStart 6 (showNat (nat \<bar>y\<bar>)))"

definition isoDatePart :: "int \<Rightarrow> string" where
  "isoDatePart z =
     isoYear (YearFromDay z) @ ''-'' @ padStart 2 (showNat (nat (MonthFromDay z)))
     @ ''-'' @ padStart 2 (showNat (nat (DateFromDay z)))"

definition isoTimePart :: "nat \<Rightarrow> string" where
  "isoTimePart ms =
     padStart 2 (showNat (ms div 3600000))
     @ '':'' @ padStart 2 (showNat (ms div 60000 mod 60))
     @ '':'' @ padStart 2 (showNat (ms div 1000 mod 60))
     @ ''.'' @ padStart 3 (showNat (ms mod 1000))"

definition toISOString :: "int \<Rightarrow> string" where
  "toISOString t = isoDatePart (Day t) @ ''T'' @ isoTimePart (nat (TimeWithinDay t)) @ ''Z''"

subsection \<open>What the platform and the network supply\<close>

text \<open>
  One element of the \<open>flightOffer\<close> array of a response.  \<open>Broken\<close> stands for an
  element on which reading \<open>outboundFlight.flightNumber\<close>, \<open>pricingInfoSum.*\<close> or
  \<open>deeplink.href.replace\<close> throws a \<open>TypeError\<close> (one of the nested objects is
  absent, or \<open>href\<close> is not a string).
\<close>

record flight =
  flightNumber :: string
  departureDateTime :: string
  arrivalDateTime :: string
  totalPriceAllPassengers :: real
  totalPriceOnePassenger :: real
  currencyCode :: string
  href :: string

datatype offerJson = Broken | Offer flight

text \<open>
  The body of a response that arrived: \<open>NoFlightOffer\<close> when \<open>response.data\<close> has no
  usable \<open>flightOffer\<close> (reading its \<open>length\<close> or iterating it throws), else the
  array.  A request that fails carries the error response's body, if there was a
  response at all.
\<close>

datatype responseData = NoFlightOffer | FlightOffer "offerJson list"

datatype response = Rejected "string option" | Resolved responseData

text \<open>
  The environment of one run of the process:
  \<^item> \<open>TRANSAVIA_API_KEY\<close>: the variable of that name in \<open>process.env\<close>;
  \<^item> \<open>helpExit\<close>: what \<open>program.help()\<close> of the command-line library does after
    printing the usage: \<open>Some c\<close> when it ends the process itself with status \<open>c\<close>,
    \<open>None\<close> when it returns to the caller;
  \<^item> \<open>LocalTZA t isUTC\<close>: the offset of local time in milliseconds, at the UTC time
    value \<open>t\<close> (\<open>isUTC\<close>) or at the local time value \<open>t\<close>;
  \<^item> \<open>parseOther\<close>: \<open>Date.parse\<close> on the strings that are not a date-only ISO
    date (\<open>None\<close> is an invalid date);
  \<^item> \<open>formatFull\<close>, \<open>formatHour\<close>: \<open>Intl.DateTimeFormat('fr-FR', ...)\<close> with the
    options of \<open>formatDate\<close>, and with \<open>{hour: 'numeric'}\<close>;
  \<^item> \<open>numberOther\<close>: the conversion to a number of the strings that are not blank
    and not a run of decimal digits;
  \<^item> \<open>fractionToString\<close>: the conversion to a string of the numbers that are not
    integers below \<open>10^21\<close>;
  \<^item> \<open>axiosGet i url\<close>: the outcome of the \<open>i\<close>-th request, sent to \<open>url\<close>.
\<close>

record env =
  TRANSAVIA_API_KEY :: "string option"
  helpExit :: "nat option"
  LocalTZA :: "int \<Rightarrow> bool \<Rightarrow> int"
  parseOther :: "string \<Rightarrow> int option"
  formatFull :: "int \<Rightarrow> string"
  formatHour :: "int \<Rightarrow> string"
  numberOther :: "string \<Rightarrow> jsnum"
  fractionToString :: "real \<Rightarrow> string"
  axiosGet :: "nat \<Rightarrow> string \<Rightarrow> response"

subsection \<open>Conversions\<close>

definition numberToString :: "env \<Rightarrow> real \<Rightarrow> string" where
  "numberToString e x =
     (if x = of_int \<lfloor>x\<rfloor> \<and> \<bar>x\<bar> < 10 ^ 21 then showInt \<lfloor>x\<rfloor> else fractionToString e x)"

definition trimmedToNumber :: "env \<Rightarrow> string \<Rightarrow> jsnum" where
  "trimmedToNumber e s =
     (if s = [] then JNum 0
      else if list_all isDigit s then JNum (of_nat (digitsVal s))
      else numberOther e s)"

definition strToNumber :: "env \<Rightarrow> string \<Rightarrow> jsnum" where
  "strToNumber e s = trimmedToNumber e (trim s)"

fun toNumber :: "env \<Rightarrow> jsval \<Rightarrow> jsnum" where
  "toNumber e (N x) = JNum x"
| "toNumber e (S s) = strToNumber e s"
| "toNumber e (B b) = JNum (if b then 1 else 0)"

fun truthy :: "jsval \<Rightarrow> bool" where
  "truthy (S s) = (s \<noteq> [])"
| "truthy (N x) = (x \<noteq> 0)"
| "truthy (B b) = b"

fun toStr :: "env \<Rightarrow> jsval \<Rightarrow> string" where
  "toStr e (S s) = s"
| "toStr e (N x) = numberToString e x"
| "toStr e (B b) = (if b then ''true'' else ''false'')"

subsection \<open>Dates\<close>

text \<open>\<open>new Date(s)\<close> for a string: the time value, or \<open>None\<close> for an invalid date.\<close>

definition dateParse :: "env \<Rightarrow> string \<Rightarrow> int option" where
  "dateParse e s = (case parseIsoDate s of Some t \<Rightarrow> Some t | None \<Rightarrow> parseOther e s)"

definition LocalTime :: "env \<Rightarrow> int \<Rightarrow> int" where
  "LocalTime e t = t + LocalTZA e t True"

definition UTC :: "env \<Rightarrow> int \<Rightarrow> int" where
  "UTC e t = t - LocalTZA e t False"

text \<open>\<open>getDate\<close>: the day of the month in local time.\<close>

definition getDate :: "env \<Rightarrow> int \<Rightarrow> int" where
  "getDate e t = DateFromDay (Day (LocalTime e t))"

definition MakeDay :: "int \<Rightarrow> int \<Rightarrow> int \<Rightarrow> int" where
  "MakeDay y m dt = daysFromCivil y m 1 + dt - 1"

definition MakeDate :: "int \<Rightarrow> int \<Rightarrow> int" where
  "MakeDate day time = day * msPerDay + time"

text \<open>\<open>setDate(dt)\<close>: the day of the month is replaced in local time, the local time
  of day is kept, and the result is read back as a UTC time value.\<close>

definition setLocalDate :: "int \<Rightarrow> int \<Rightarrow> int" where
  "setLocalDate lt dt =
     MakeDate (MakeDay (YearFromDay (Day lt)) (MonthFromDay (Day lt)) dt) (TimeWithinDay lt)"

definition setDate :: "env \<Rightarrow> int \<Rightarrow> int \<Rightarrow> int option" where
  "setDate e t dt = TimeClip (UTC e (setLocalDate (LocalTime e t) dt))"

text \<open>\<open>AppDate.addDays\<close>: a copy of the date, moved by \<open>setDate(getDate() + days)\<close>.\<close>

definition addDays :: "env \<Rightarrow> int \<Rightarrow> int \<Rightarrow> int option" where
  "addDays e t days = setDate e t (getDate e t + days)"

text \<open>\<open>formatDate\<close>: formatting an invalid date throws a \<open>RangeError\<close> (\<open>None\<close>).\<close>

definition formatDate :: "env \<Rightarrow> string \<Rightarrow> string option" where
  "formatDate e time = map_option (formatFull e) (dateParse e time)"

text \<open>\<open>date.toISOString().split('T')[0].replace(/-/g, '')\<close>.\<close>

definition isoDateDigits :: "int \<Rightarrow> string" where
  "isoDateDigits t =
     filter (\<lambda>c. c \<noteq> CHR ''-'')
       (case splitOn (CHR ''T'') (toISOString t) of [] \<Rightarrow> [] | x # _ \<Rightarrow> x)"

text \<open>
  The date queried on iteration \<open>i\<close>:
  \<open>new AppDate(formattedStart).addDays(i)\<close> rendered as above.  \<open>None\<close> when the date
  is invalid, where \<open>toISOString\<close> throws a \<open>RangeError\<close>.
\<close>

definition departureDate :: "env \<Rightarrow> string \<Rightarrow> nat \<Rightarrow> string option" where
  "departureDate e formattedStart i =
     (case dateParse e formattedStart of
        None \<Rightarrow> None
      | Some t0 \<Rightarrow> map_option isoDateDigits (addDays e t0 (int i)))"

section \<open>The crawler\<close>

subsection \<open>Arguments and request parameters\<close>

text \<open>
  \<open>FlightArguments\<close>, as the action handler receives it.  A field is \<open>None\<close> when
  the object has no such key; the numbers are as the interface declares them.
\<close>

record args =
  origin :: "string option"
  destination :: "string option"
  start :: "string option"
  mail :: "string option"
  price :: "real option"
  adults :: "real option"
  children :: "real option"
  hourRange :: "string option"

definition requiredArgs :: "string list" where
  "requiredArgs = [''origin'', ''destination'', ''start'', ''mail'']"

text \<open>\<open>arg in args\<close>.\<close>

definition hasArg :: "args \<Rightarrow> string \<Rightarrow> bool" where
  "hasArg a k =
     (if k = ''origin'' then origin a \<noteq> None
      else if k = ''destination'' then destination a \<noteq> None
      else if k = ''start'' then start a \<noteq> None
      else if k = ''mail'' then mail a \<noteq> None
      else if k = ''price'' then price a \<noteq> None
      else if k = ''adults'' then adults a \<noteq> None
      else if k = ''children'' then children a \<noteq> None
      else if k = ''hourRange'' then hourRange a \<noteq> None
      else False)"

text \<open>The object \<open>params\<close>; its fields carry the prefix \<open>q_\<close> where the name is
  taken by \<open>args\<close>.\<close>

record queryParams =
  q_origin :: string
  q_destination :: string
  originDepartureDate :: string
  directFlight :: bool
  q_adults :: real
  q_children :: real
  q_hourRange :: string

definition API_URL :: string where
  "API_URL = ''https://api.transavia.com/v1/flightoffers/''"

definition adults' :: "args \<Rightarrow> real" where
  "adults' a = (case adults a of None \<Rightarrow> 2 | Some n \<Rightarrow> n)"

definition children' :: "args \<Rightarrow> real" where
  "children' a = (case children a of None \<Rightarrow> 0 | Some n \<Rightarrow> n)"

definition initialParams :: "args \<Rightarrow> string \<Rightarrow> string \<Rightarrow> string \<Rightarrow> queryParams" where
  "initialParams a orig dest st =
     \<lparr>q_origin = orig, q_destination = dest, originDepartureDate = st, directFlight = True,
      q_adults = adults' a, q_children = children' a,
      q_hourRange = (case hourRange a of None \<Rightarrow> ''0-24'' | Some r \<Rightarrow> r)\<rparr>"

text \<open>\<open>Object.entries(params)\<close>, in the order of the object literal.\<close>

definition entries :: "queryParams \<Rightarrow> (string \<times> jsval) list" where
  "entries p =
     [(''origin'', S (q_origin p)), (''destination'', S (q_destination p)),
      (''originDepartureDate'', S (originDepartureDate p)), (''directFlight'', B (directFlight p)),
      (''adults'', N (q_adults p)), (''children'', N (q_children p)),
      (''hourRange'', S (q_hourRange p))]"

text \<open>\<open>value && `${key}=${value}`\<close>: a falsy value stays as it is.\<close>

definition queryPart :: "env \<Rightarrow> string \<times> jsval \<Rightarrow> jsval" where
  "queryPart e kv = (if truthy (snd kv) then S (fst kv @ ''='' @ toStr e (snd kv)) else snd kv)"

definition query :: "env \<Rightarrow> queryParams \<Rightarrow> string" where
  "query e p = joinWith ''&'' (map (toStr e) (filter truthy (map (queryPart e) (entries p))))"

definition requestURL :: "env \<Rightarrow> queryParams \<Rightarrow> string" where
  "requestURL e p = API_URL @ ''?'' @ query e p"

text \<open>The header \<open>apikey\<close> of a request: the variable, as a template renders it.\<close>

definition apikeyHeader :: "env \<Rightarrow> string" where
  "apikeyHeader e = (case TRANSAVIA_API_KEY e of None \<Rightarrow> ''undefined'' | Some k \<Rightarrow> k)"

subsection \<open>The filter\<close>

definition maxPrice :: "args \<Rightarrow> real" where
  "maxPrice a = (case price a of None \<Rightarrow> 1000 | Some p \<Rightarrow> p)"

text \<open>\<open>hourRange?.split('-')[0] ?? 0\<close> and \<open>hourRange?.split('-')[1] ?? 24\<close>.\<close>

definition hourRangeStart :: "args \<Rightarrow> jsval" where
  "hourRangeStart a =
     (case hourRange a of
        None \<Rightarrow> N 0
      | Some r \<Rightarrow> (case splitOn (CHR ''-'') r of x # _ \<Rightarrow> S x | [] \<Rightarrow> N 0))"

definition hourRangeEnd :: "args \<Rightarrow> jsval" where
  "hourRangeEnd a =
     (case hourRange a of
        None \<Rightarrow> N 24
      | Some r \<Rightarrow> (case splitOn (CHR ''-'') r of _ # y # _ \<Rightarrow> S y | _ \<Rightarrow> N 24))"

text \<open>
  The departure hour of an offer: the formatted hour, without its first \<open>h\<close>, without
  one leading zero, trimmed and converted to a number.  \<open>None\<close> when the departure
  time is an invalid date and the formatter throws.
\<close>

definition departureHour :: "env \<Rightarrow> string \<Rightarrow> jsnum option" where
  "departureHour e time =
     map_option (\<lambda>t. strToNumber e (trim (stripLeadingZero (remove1 (CHR ''h'') (formatHour e t)))))
       (dateParse e time)"

text \<open>\<open>hour < hourRangeStart || hour > hourRangeEnd\<close>.\<close>

definition outsideHours :: "env \<Rightarrow> args \<Rightarrow> jsnum \<Rightarrow> bool" where
  "outsideHours e a hour =
     (jsLess hour (toNumber e (hourRangeStart a)) \<or> jsLess (toNumber e (hourRangeEnd a)) hour)"

subsection \<open>The report\<close>

definition nl :: string where
  "nl = [CHR 0x0A]"

definition link :: "flight \<Rightarrow> string" where
  "link f = replaceAll ''nl-NL'' ''fr-FR'' (href f)"

text \<open>The text appended to \<open>mailText\<close> for an offer; \<open>dep\<close> is the formatted
  departure time.\<close>

definition textRowOf :: "env \<Rightarrow> string \<Rightarrow> string \<Rightarrow> flight \<Rightarrow> string \<Rightarrow> string" where
  "textRowOf env orig dest f dep =
     concat [''Le vol n'', [CHR 0xB0], flightNumber f, '' d'', [CHR 0xE9], ''part '', dep,
       '' depuis '', orig, '', arriv'', [CHR 0xE9], '' '', arrivalDateTime f, '' '', [CHR 0xE0],
       '' '', dest, '' pour '', numberToString env (totalPriceAllPassengers f), currencyCode f,
       '' ('', numberToString env (totalPriceOnePassenger f), currencyCode f, ''/passager). '',
       link f, nl, nl]"

definition textRow :: "env \<Rightarrow> string \<Rightarrow> string \<Rightarrow> flight \<Rightarrow> string option" where
  "textRow env orig dest f =
     map_option (textRowOf env orig dest f) (formatDate env (departureDateTime f))"

text \<open>The text appended to \<open>mailHTML\<close> for an offer; \<open>dep\<close> and \<open>arr\<close> are the
  formatted departure and arrival times.\<close>

definition htmlRowOf :: "env \<Rightarrow> queryParams \<Rightarrow> flight \<Rightarrow> string \<Rightarrow> string \<Rightarrow> string" where
  "htmlRowOf env p f dep arr =
     concat [nl, ''                <tr>'', nl, ''                  <td>'', flightNumber f,
       ''</td>'', nl, ''                  <td>'', dep, ''</td>'', nl, ''                  <td>'',
       arr, ''</td>'', nl, ''                  <td>'',
       numberToString env (totalPriceOnePassenger f), '' '', currencyCode f, ''</td>'', nl,
       ''                  <td>'', numberToString env (q_adults p + q_children p), ''</td>'', nl,
       ''                  <td>'', numberToString env (totalPriceAllPassengers f), '' '',
       currencyCode f, ''</td>'', nl, ''                  <td><a href='', [CHR 0x22], link f,
       [CHR 0x22], ''>'', link f, ''</a></td>'', nl, ''                </tr>'']"

definition htmlRow :: "env \<Rightarrow> queryParams \<Rightarrow> flight \<Rightarrow> string option" where
  "htmlRow env p f =
     (case formatDate env (departureDateTime f) of
        None \<Rightarrow> None
      | Some dep \<Rightarrow> map_option (htmlRowOf env p f dep) (formatDate env (arrivalDateTime f)))"

definition htmlHeadOf ::
  "string \<Rightarrow> string \<Rightarrow> string \<Rightarrow> string \<Rightarrow> string \<Rightarrow> string \<Rightarrow> string" where
  "htmlHeadOf orig dest startText adultsText childrenText priceText =
     concat [nl, ''            <h1>Transavia r'', [CHR 0xE9], ''sultat de la recherche</h1>'',
       nl, ''            <p>'', nl, ''              Voici les r'', [CHR 0xE9],
       ''sultats de la recherche en fonction des param'', [CHR 0xE8],
       ''tres que vous avez entr'', [CHR 0xE9], ''s:'', nl, ''            </p>'', nl,
       ''            <ul>'', nl, ''              <li>'', nl, ''                <strong>D'',
       [CHR 0xE9], ''part:</strong> '', orig, nl, ''              </li>'', nl,
       ''              <li>'', nl, ''                <strong>Arriv'', [CHR 0xE9],
       ''e:</strong> '', dest, nl, ''              </li>'', nl, ''              <li>'', nl,
       ''                <strong>Date de d'', [CHR 0xE9], ''part:</strong> '', startText, nl,
       ''              </li>'', nl, ''              <li>'', nl,
       ''                <strong>Nombre d'', [CHR 0x27], ''adultes:</strong> '', adultsText, nl,
       ''              </li>'', nl, ''              <li>'', nl,
       ''                <strong>Nombre d'', [CHR 0x27], ''enfants:</strong> '', childrenText,
       nl, ''              </li>'', nl, ''              <li>'', nl,
       ''                <strong>Prix maximum:</strong> '', priceText, nl,
       ''              </li>'', nl, ''            </ul>'', nl, ''            <table>'', nl,
       ''              <thead>'', nl, ''                <tr>'', nl,
       ''                  <th>Vol</th>'', nl, ''                  <th>D'', [CHR 0xE9],
       ''part</th>'', nl, ''                  <th>Arriv'', [CHR 0xE9], ''e</th>'', nl,
       ''                  <th>Prix/passager</th>'', nl,
       ''                  <th>Passagers</th>'', nl, ''                  <th>Prix total</th>'',
       nl, ''                  <th>Lien</th>'', nl, ''                </tr>'', nl,
       ''              </thead>'', nl, ''              <tbody>'', nl, ''              '']"

text \<open>The initial value of \<open>mailHTML\<close>; \<open>None\<close> when \<open>formatDate(formattedStart)\<close>
  throws.\<close>

definition htmlHead :: "env \<Rightarrow> args \<Rightarrow> string \<Rightarrow> string \<Rightarrow> string \<Rightarrow> string option" where
  "htmlHead env a orig dest formattedStart =
     map_option
       (\<lambda>startText. htmlHeadOf orig dest startText (numberToString env (adults' a))
          (numberToString env (children' a))
          (case price a of None \<Rightarrow> ''Aucun'' | Some p \<Rightarrow> numberToString env p))
       (formatDate env formattedStart)"

definition htmlFoot :: string where
  "htmlFoot =
     concat [''</tbody>'', nl, ''          </table>'', nl, ''          '']"

subsection \<open>The mail sender\<close>

text \<open>The message handed to the transport by \<open>Mailer.sendMail\<close>: the fields
  \<open>from\<close>, \<open>to\<close>, \<open>subject\<close>, \<open>text\<close> and \<open>html\<close>.\<close>

record message =
  mailFrom :: string
  mailTo :: string
  subject :: string
  textBody :: string
  htmlBody :: string

record Mailer =
  sender :: string
  receivers :: "string list"

definition sendMail :: "Mailer \<Rightarrow> string \<Rightarrow> string \<Rightarrow> string \<Rightarrow> message" where
  "sendMail m subj txt html =
     \<lparr>mailFrom = sender m, mailTo = joinWith '', '' (receivers m), subject = subj,
      textBody = txt, htmlBody = html\<rparr>"

subsection \<open>What a run does\<close>

text \<open>The effects of a run, in the order in which they happen.\<close>

datatype event =
    ConsoleError string
  | ProgramHelp
  | AxiosGet string string
  | ConsoleLog "string option"
  | ConsoleLogText string
  | SendMail message

text \<open>How the process ends: \<open>process.exit\<close> with a status, the normal return of
  \<open>main\<close>, or an exception that nothing catches.\<close>

datatype outcome = Exit nat | Returned | Uncaught

text \<open>The variables the scan changes, and the effects so far.\<close>

record scan =
  params :: queryParams
  mailText :: string
  mailHTML :: string
  hasResults :: bool
  events :: "event list"

text \<open>A block either runs to its end or throws; both carry the state reached.\<close>

datatype 'a flow = Normal 'a | Throw 'a

definition emit :: "event \<Rightarrow> scan \<Rightarrow> scan" where
  "emit ev s = s\<lparr>events := events s @ [ev]\<rparr>"

text \<open>The body of the loop over the offers of one response.\<close>

fun offerStep :: "env \<Rightarrow> args \<Rightarrow> string \<Rightarrow> string \<Rightarrow> scan \<Rightarrow> offerJson \<Rightarrow> scan flow" where
  "offerStep e a orig dest s Broken = Throw s"
| "offerStep e a orig dest s (Offer f) =
     (if totalPriceOnePassenger f < maxPrice a then
        (case departureHour e (departureDateTime f) of
           None \<Rightarrow> Throw s
         | Some hour \<Rightarrow>
             if outsideHours e a hour then Normal s
             else (case textRow e orig dest f of
                     None \<Rightarrow> Throw s
                   | Some tr \<Rightarrow>
                       (case htmlRow e (params s) f of
                          None \<Rightarrow> Throw (s\<lparr>mailText := mailText s @ tr\<rparr>)
                        | Some hr \<Rightarrow>
                            Normal (s\<lparr>mailText := mailText s @ tr,
                                      mailHTML := mailHTML s @ hr\<rparr>))))
      else Normal s)"

fun offersLoop ::
  "env \<Rightarrow> args \<Rightarrow> string \<Rightarrow> string \<Rightarrow> offerJson list \<Rightarrow> scan \<Rightarrow> scan flow" where
  "offersLoop e a orig dest [] s = Normal s"
| "offersLoop e a orig dest (x # xs) s =
     (case offerStep e a orig dest s x of
        Throw s' \<Rightarrow> Throw s'
      | Normal s' \<Rightarrow> offersLoop e a orig dest xs s')"

text \<open>
  The \<open>try\<close> block after the request and its \<open>catch\<close>: whatever is thrown, the
  handler prints \<open>error.response?.data\<close>, which is the body of the error response
  for a failed request and \<open>undefined\<close> for every other exception.
\<close>

fun tryCatch :: "env \<Rightarrow> args \<Rightarrow> string \<Rightarrow> string \<Rightarrow> response \<Rightarrow> scan \<Rightarrow> scan" where
  "tryCatch e a orig dest (Rejected body) s = emit (ConsoleLog body) s"
| "tryCatch e a orig dest (Resolved NoFlightOffer) s = emit (ConsoleLog None) s"
| "tryCatch e a orig dest (Resolved (FlightOffer fs)) s =
     (case offersLoop e a orig dest fs (if fs \<noteq> [] then s\<lparr>hasResults := True\<rparr> else s) of
        Normal s' \<Rightarrow> s'
      | Throw s' \<Rightarrow> emit (ConsoleLog None) s')"

definition sendRequest :: "env \<Rightarrow> args \<Rightarrow> string \<Rightarrow> string \<Rightarrow> nat \<Rightarrow> scan \<Rightarrow> scan" where
  "sendRequest e a orig dest i s =
     tryCatch e a orig dest (axiosGet e i (requestURL e (params s)))
       (emit (AxiosGet (requestURL e (params s)) (apikeyHeader e)) s)"

text \<open>One iteration of the loop over the days.\<close>

definition dayStep ::
  "env \<Rightarrow> args \<Rightarrow> string \<Rightarrow> string \<Rightarrow> string \<Rightarrow> nat \<Rightarrow> scan \<Rightarrow> scan flow" where
  "dayStep e a orig dest formattedStart i s =
     (case departureDate e formattedStart i of
        None \<Rightarrow> Throw s
      | Some dd \<Rightarrow>
          Normal (sendRequest e a orig dest i (s\<lparr>params := (params s)\<lparr>originDepartureDate := dd\<rparr>\<rparr>)))"

fun daysLoop ::
  "env \<Rightarrow> args \<Rightarrow> string \<Rightarrow> string \<Rightarrow> string \<Rightarrow> nat list \<Rightarrow> scan \<Rightarrow> scan flow" where
  "daysLoop e a orig dest formattedStart [] s = Normal s"
| "daysLoop e a orig dest formattedStart (i # is) s =
     (case dayStep e a orig dest formattedStart i s of
        Throw s' \<Rightarrow> Throw s'
      | Normal s' \<Rightarrow> daysLoop e a orig dest formattedStart is s')"

text \<open>The end of \<open>main\<close>: the table is closed, the mailer is built, and the mail is
  sent when \<open>hasResults\<close> is set.\<close>

definition mailer :: "string \<Rightarrow> Mailer" where
  "mailer m = \<lparr>sender = ''David Nogueira <noreply@david-nogueira.dev>'', receivers = [m]\<rparr>"

definition mailEvents :: "string \<Rightarrow> scan \<Rightarrow> event list" where
  "mailEvents m s =
     (if hasResults s
      then [SendMail (sendMail (mailer m) ''Nouvelle offre de vol'' (mailText s)
                        (mailHTML s @ htmlFoot)),
            ConsoleLogText (''Mail bien envoy'' @ [CHR 0xE9] @ '' !'')]
      else [])"

fun finish :: "string \<Rightarrow> scan flow \<Rightarrow> event list \<times> outcome" where
  "finish m (Throw s) = (events s, Uncaught)"
| "finish m (Normal s) = (events s @ mailEvents m s, Returned)"

definition initialScan :: "args \<Rightarrow> string \<Rightarrow> string \<Rightarrow> string \<Rightarrow> string \<Rightarrow> scan" where
  "initialScan a orig dest st h =
     \<lparr>params = initialParams a orig dest st, mailText = [], mailHTML = h, hasResults = False,
      events = []\<rparr>"

text \<open>\<open>main\<close> once the arguments are known to be there.\<close>

definition crawl :: "env \<Rightarrow> args \<Rightarrow> string \<Rightarrow> string \<Rightarrow> string \<Rightarrow> string \<Rightarrow> event list \<times> outcome" where
  "crawl e a orig dest st m =
     (case htmlHead e a orig dest (formatStart st) of
        None \<Rightarrow> ([], Uncaught)
      | Some h \<Rightarrow>
          finish m (daysLoop e a orig dest (formatStart st) [0..<15]
                      (initialScan a orig dest st h)))"

text \<open>\<open>!process.env.TRANSAVIA_API_KEY\<close>.\<close>

definition missingKey :: "env \<Rightarrow> bool" where
  "missingKey e = (case TRANSAVIA_API_KEY e of None \<Rightarrow> True | Some k \<Rightarrow> k = [])"

text \<open>
  The branch for a missing argument: the message, the usage, and the end of the
  process, by \<open>program.help()\<close> itself or by the \<open>process.exit(1)\<close> after it.
\<close>

definition missingArgument :: "env \<Rightarrow> string \<Rightarrow> event list \<times> outcome" where
  "missingArgument e k =
     ([ConsoleError (''Missing required argument: '' @ k), ProgramHelp],
      Exit (case helpExit e of None \<Rightarrow> 1 | Some c \<Rightarrow> c))"

text \<open>
  The action handler.  After the loop over \<open>requiredArgs\<close> the four required values
  are there, so the last branch of the inner case is never taken.
\<close>

definition main :: "env \<Rightarrow> args \<Rightarrow> event list \<times> outcome" where
  "main e a =
     (if missingKey e then ([ConsoleError ''Missing Transavia API key''], Exit 1)
      else (case find (\<lambda>k. \<not> hasArg a k) requiredArgs of
              Some k \<Rightarrow> missingArgument e k
            | None \<Rightarrow>
                (case (origin a, destination a, start a, mail a) of
                   (Some orig, Some dest, Some st, Some m) \<Rightarrow> crawl e a orig dest st m
                 | _ \<Rightarrow> ([], Uncaught))))"

text \<open>The requests and the mails among the effects of a run.\<close>

fun requestsOf :: "event list \<Rightarrow> string list" where
  "requestsOf [] = []"
| "requestsOf (AxiosGet url key # evs) = url # requestsOf evs"
| "requestsOf (_ # evs) = requestsOf evs"

fun mailsOf :: "event list \<Rightarrow> message list" where
  "mailsOf [] = []"
| "mailsOf (SendMail m # evs) = m # mailsOf evs"
| "mailsOf (_ # evs) = mailsOf evs"

text \<open>The state a block has reached, whether it ended or threw.\<close>

fun stateOf :: "'a flow \<Rightarrow> 'a" where
  "stateOf (Normal s) = s"
| "stateOf (Throw s) = s"

text \<open>
  The address of the request of day \<open>i\<close> when the parameters before the loop are
  \<open>p\<close>: only the departure date of \<open>p\<close> is replaced.
\<close>

definition dayURL :: "env \<Rightarrow> queryParams \<Rightarrow> string \<Rightarrow> nat \<Rightarrow> string option" where
  "dayURL e p formattedStart i =
     map_option (\<lambda>dd. requestURL e (p\<lparr>originDepartureDate := dd\<rparr>))
       (departureDate e formattedStart i)"

section \<open>Sample environments and runs\<close>

text \<open>
  Stand-ins for the platform, used to run the model on concrete inputs: a table of
  timestamps for \<open>Date.parse\<close>, the ISO rendering in place of the French long format,
  the hour followed by \<open>h\<close> as the French hour format gives it, and no other number
  syntax.
\<close>

definition sampleTimes :: "string \<Rightarrow> int option" where
  "sampleTimes s =
     (if s = ''2024-06-01T10:00:00'' then Some 1717236000000
      else if s = ''2024-06-01T12:00:00'' then Some 1717243200000
      else if s = ''2024-06-01T20:00:00'' then Some 1717272000000
      else None)"

definition sampleHour :: "int \<Rightarrow> string" where
  "sampleHour t = padStart 2 (showNat (nat (TimeWithinDay t div 3600000))) @ '' h''"

definition noNumber :: "string \<Rightarrow> jsnum" where
  "noNumber s = JNaN"

definition noFraction :: "real \<Rightarrow> string" where
  "noFraction x = ''?''"

text \<open>Two time zones: UTC, and Europe/Paris in 2024 (UTC+1, and UTC+2 from 31 March
  01:00 UTC to 27 October 01:00 UTC).\<close>

definition zoneUTC :: "int \<Rightarrow> bool \<Rightarrow> int" where
  "zoneUTC t isUTC = 0"

definition zoneParis2024 :: "int \<Rightarrow> bool \<Rightarrow> int" where
  "zoneParis2024 t isUTC =
     (if isUTC then (if 1711846800000 \<le> t \<and> t < 1729990800000 then 7200000 else 3600000)
      else (if 1711854000000 \<le> t \<and> t < 1729998000000 then 7200000 else 3600000))"

text \<open>Offers: one that passes the default filter, the same at a price above the
  default maximum, and the same with an arrival time that is no date.\<close>

definition sampleFlight :: flight where
  "sampleFlight =
     \<lparr>flightNumber = ''TO4040'', departureDateTime = ''2024-06-01T10:00:00'',
      arrivalDateTime = ''2024-06-01T12:00:00'', totalPriceAllPassengers = 300,
      totalPriceOnePassenger = 150, currencyCode = ''EUR'',
      href = ''https://www.transavia.com/nl-NL/book''\<rparr>"

definition dearFlight :: flight where
  "dearFlight = sampleFlight\<lparr>totalPriceAllPassengers := 4000, totalPriceOnePassenger := 2000\<rparr>"

definition lateFlight :: flight where
  "lateFlight = sampleFlight\<lparr>departureDateTime := ''2024-06-01T20:00:00''\<rparr>"

definition noArrival :: flight where
  "noArrival = sampleFlight\<lparr>arrivalDateTime := []\<rparr>"

text \<open>Responses: nothing on any day; a dear offer on the first day, a failure on the
  second and a body without \<open>flightOffer\<close> on the third; an offer without arrival
  time on the first day.\<close>

definition quietDays :: "nat \<Rightarrow> string \<Rightarrow> response" where
  "quietDays i url = Resolved (FlightOffer [])"

definition dearDays :: "nat \<Rightarrow> string \<Rightarrow> response" where
  "dearDays i url =
     (if i = 0 then Resolved (FlightOffer [Offer dearFlight])
      else if i = 1 then Rejected (Some ''Too Many Requests'')
      else if i = 2 then Resolved NoFlightOffer
      else Resolved (FlightOffer []))"

definition noArrivalDays :: "nat \<Rightarrow> string \<Rightarrow> response" where
  "noArrivalDays i url =
     (if i = 0 then Resolved (FlightOffer [Offer noArrival]) else Resolved (FlightOffer []))"

definition sampleEnv :: env where
  "sampleEnv =
     \<lparr>TRANSAVIA_API_KEY = Some ''KEY'', helpExit = None, LocalTZA = zoneUTC,
      parseOther = sampleTimes, formatFull = toISOString, formatHour = sampleHour,
      numberOther = noNumber, fractionToString = noFraction, axiosGet = quietDays\<rparr>"

definition sampleArgs :: args where
  "sampleArgs =
     \<lparr>origin = Some ''ORY'', destination = Some ''LIS'', start = Some ''20240601'',
      mail = Some ''me@example.org'', price = None, adults = None, children = None,
      hourRange = None\<rparr>"

text \<open>The arguments of the specification's example: at most 200, from 9 to 17.\<close>

definition narrowArgs :: args where
  "narrowArgs = sampleArgs\<lparr>price := Some 200, hourRange := Some ''9-17''\<rparr>"

text \<open>The address of a request of the sample runs, and the days they query.\<close>

definition sampleURL :: "string \<Rightarrow> string" where
  "sampleURL dd =
     ''https://api.transavia.com/v1/flightoffers/?origin=ORY&destination=LIS&originDepartureDate=''
     @ dd @ ''&directFlight=true&adults=2&hourRange=0-24''"

definition sampleDays :: "string list" where
  "sampleDays =
     [''20240601'', ''20240602'', ''20240603'', ''20240604'', ''20240605'', ''20240606'',
      ''20240607'', ''20240608'', ''20240609'', ''20240610'', ''20240611'', ''20240612'',
      ''20240613'', ''20240614'', ''20240615'']"

definition sampleHead :: string where
  "sampleHead = htmlHeadOf ''ORY'' ''LIS'' ''2024-06-01T00:00:00.000Z'' ''2'' ''0'' ''Aucun''"

text \<open>The sample environment with these responses, and in Paris.\<close>

definition dearEnv :: env where
  "dearEnv = sampleEnv\<lparr>axiosGet := dearDays\<rparr>"

definition noArrivalEnv :: env where
  "noArrivalEnv = sampleEnv\<lparr>axiosGet := noArrivalDays\<rparr>"

definition parisEnv :: env where
  "parisEnv = sampleEnv\<lparr>LocalTZA := zoneParis2024\<rparr>"

text \<open>The effects of the scan with the responses \<open>dearDays\<close>, and with
  \<open>noArrivalDays\<close>.\<close>

definition dearEvents :: "event list" where
  "dearEvents =
     [AxiosGet (sampleURL ''20240601'') ''KEY'', AxiosGet (sampleURL ''20240602'') ''KEY'',
      ConsoleLog (Some ''Too Many Requests''), AxiosGet (sampleURL ''20240603'') ''KEY'',
      ConsoleLog None]
     @ map (\<lambda>dd. AxiosGet (sampleURL dd) ''KEY'') (drop 3 sampleDays)"

definition noArrivalEvents :: "event list" where
  "noArrivalEvents =
     AxiosGet (sampleURL ''20240601'') ''KEY'' # ConsoleLog None
     # map (\<lambda>dd. AxiosGet (sampleURL dd) ''KEY'') (drop 1 sampleDays)"

text \<open>The row of the text report for the offer without arrival time.\<close>

definition noArrivalRow :: string where
  "noArrivalRow = textRowOf noArrivalEnv ''ORY'' ''LIS'' noArrival ''2024-06-01T10:00:00.000Z''"

text \<open>The mail of a sample run, given its two bodies.\<close>

definition sampleMail :: "string \<Rightarrow> string \<Rightarrow> message" where
  "sampleMail txt html =
     \<lparr>mailFrom = ''David Nogueira <noreply@david-nogueira.dev>'', mailTo = ''me@example.org'',
      subject = ''Nouvelle offre de vol'', textBody = txt, htmlBody = html\<rparr>"

text \<open>The state after the scan of a sample run, given the buffers and the flag.\<close>

definition sampleEnd :: "string \<Rightarrow> string \<Rightarrow> bool \<Rightarrow> event list \<Rightarrow> scan" where
  "sampleEnd txt html found evs =
     \<lparr>params = (initialParams sampleArgs ''ORY'' ''LIS'' ''20240601'')
                  \<lparr>originDepartureDate := ''20240615''\<rparr>,
      mailText = txt, mailHTML = html, hasResults = found, events = evs\<rparr>"

text \<open>
  A response whose second element is broken, between two offers that pass the filter;
  the state before the request, and the state when the broken element is reached.
\<close>

definition brokenDays :: "nat \<Rightarrow> string \<Rightarrow> response" where
  "brokenDays i url = Resolved (FlightOffer [Offer sampleFlight, Broken, Offer sampleFlight])"

definition brokenEnv :: env where
  "brokenEnv = sampleEnv\<lparr>axiosGet := brokenDays\<rparr>"

definition brokenStart :: scan where
  "brokenStart = initialScan sampleArgs ''ORY'' ''LIS'' ''20240601'' []"

definition sampleRow :: string where
  "sampleRow = textRowOf sampleEnv ''ORY'' ''LIS'' sampleFlight ''2024-06-01T10:00:00.000Z''"

definition sampleHtmlRow :: string where
  "sampleHtmlRow =
     htmlRowOf sampleEnv (initialParams sampleArgs ''ORY'' ''LIS'' ''20240601'') sampleFlight
       ''2024-06-01T10:00:00.000Z'' ''2024-06-01T12:00:00.000Z''"

definition brokenSeen :: scan where
  "brokenSeen =
     brokenStart\<lparr>mailText := sampleRow, mailHTML := sampleHtmlRow, hasResults := True,
       events := [AxiosGet (sampleURL ''20240601'') ''KEY'']\<rparr>"

text \<open>A start date six days before the change to summer time, and the days the scan
  queries from it in Paris.\<close>

definition marchArgs :: args where
  "marchArgs = sampleArgs\<lparr>start := Some ''20240325''\<rparr>"

definition parisDays :: "string list" where
  "parisDays =
     [''20240325'', ''20240326'', ''20240327'', ''20240328'', ''20240329'', ''20240330'',
      ''20240331'', ''20240331'', ''20240401'', ''20240402'', ''20240403'', ''20240404'',
      ''20240405'', ''20240406'', ''20240407'']"

section \<open>What a step leaves unchanged\<close>

lemma requestsOf_append: "requestsOf (xs @ ys) = requestsOf xs @ requestsOf ys"
  by (induction xs rule: requestsOf.induct) auto

lemma mailsOf_append: "mailsOf (xs @ ys) = mailsOf xs @ mailsOf ys"
  by (induction xs rule: mailsOf.induct) auto

lemma offerStep_frame:
  "params (stateOf (offerStep e a orig dest s x)) = params s
   \<and> events (stateOf (offerStep e a orig dest s x)) = events s
   \<and> hasResults (stateOf (offerStep e a orig dest s x)) = hasResults s"
  by (cases x) (auto split: option.splits)

lemma offersLoop_frame:
  "params (stateOf (offersLoop e a orig dest xs s)) = params s
   \<and> events (stateOf (offersLoop e a orig dest xs s)) = events s
   \<and> hasResults (stateOf (offersLoop e a orig dest xs s)) = hasResults s"
proof (induction xs arbitrary: s)
  case Nil
  then show ?case by simp
next
  case (Cons x xs)
  show ?case
  proof (cases "offerStep e a orig dest s x")
    case (Normal s1)
    with offerStep_frame [of e a orig dest s x] Cons.IH [of s1] show ?thesis by simp
  next
    case (Throw s1)
    with offerStep_frame [of e a orig dest s x] show ?thesis by simp
  qed
qed

lemma tryCatch_params: "params (tryCatch e a orig dest r s) = params s"
proof (cases r)
  case (Rejected body)
  then show ?thesis by (simp add: emit_def)
next
  case (Resolved d)
  show ?thesis
  proof (cases d)
    case NoFlightOffer
    with Resolved show ?thesis by (simp add: emit_def)
  next
    case (FlightOffer fs)
    let ?s0 = "if fs \<noteq> [] then s\<lparr>hasResults := True\<rparr> else s"
    have "params (stateOf (offersLoop e a orig dest fs ?s0)) = params s"
      using offersLoop_frame [of e a orig dest fs ?s0] by simp
    with Resolved FlightOffer show ?thesis
      by (cases "offersLoop e a orig dest fs ?s0") (auto simp: emit_def)
  qed
qed

text \<open>What the handler prints after the \<open>try\<close> block.\<close>

lemma tryCatch_events:
  "\<exists>logged. events (tryCatch e a orig dest r s) = events s @ logged
     \<and> requestsOf logged = [] \<and> mailsOf logged = []
     \<and> (\<forall>body. r = Rejected body \<longrightarrow> logged = [ConsoleLog body])"
proof (cases r)
  case (Rejected body)
  then show ?thesis by (simp add: emit_def)
next
  case (Resolved d)
  show ?thesis
  proof (cases d)
    case NoFlightOffer
    with Resolved show ?thesis by (simp add: emit_def)
  next
    case (FlightOffer fs)
    let ?s0 = "if fs \<noteq> [] then s\<lparr>hasResults := True\<rparr> else s"
    have "events (stateOf (offersLoop e a orig dest fs ?s0)) = events s"
      using offersLoop_frame [of e a orig dest fs ?s0] by simp
    with Resolved FlightOffer show ?thesis
      by (cases "offersLoop e a orig dest fs ?s0") (auto simp: emit_def)
  qed
qed

lemma sendRequest_params: "params (sendRequest e a orig dest i s) = params s"
  by (simp add: sendRequest_def tryCatch_params emit_def)

lemma sendRequest_events:
  "\<exists>logged. events (sendRequest e a orig dest i s)
       = events s @ AxiosGet (requestURL e (params s)) (apikeyHeader e) # logged
     \<and> requestsOf logged = [] \<and> mailsOf logged = []
     \<and> (\<forall>body. axiosGet e i (requestURL e (params s)) = Rejected body
            \<longrightarrow> logged = [ConsoleLog body])"
proof -
  let ?s1 = "emit (AxiosGet (requestURL e (params s)) (apikeyHeader e)) s"
  let ?r = "axiosGet e i (requestURL e (params s))"
  obtain logged where
    "events (tryCatch e a orig dest ?r ?s1) = events ?s1 @ logged"
    "requestsOf logged = []" "mailsOf logged = []"
    "\<forall>body. ?r = Rejected body \<longrightarrow> logged = [ConsoleLog body]"
    using tryCatch_events [of e a orig dest ?r ?s1] by blast
  then show ?thesis by (auto simp: sendRequest_def emit_def)
qed


section \<open>The loop over the days\<close>

lemma dayStep_Normal:
  assumes "dayStep e a orig dest fs i s = Normal s1"
  obtains dd where "departureDate e fs i = Some dd"
    and "s1 = sendRequest e a orig dest i (s\<lparr>params := (params s)\<lparr>originDepartureDate := dd\<rparr>\<rparr>)"
  using assms by (auto simp: dayStep_def split: option.splits)

lemma dayURL_update [simp]:
  "dayURL e (p\<lparr>originDepartureDate := dd\<rparr>) fs i = dayURL e p fs i"
  by (simp add: dayURL_def)

lemma dayStep_events:
  assumes "dayStep e a orig dest fs i s = Normal s1"
  shows "\<exists>url logged. dayURL e (params s) fs i = Some url
     \<and> events s1 = events s @ AxiosGet url (apikeyHeader e) # logged
     \<and> requestsOf logged = [] \<and> mailsOf logged = []
     \<and> (\<forall>body. axiosGet e i url = Rejected body \<longrightarrow> logged = [ConsoleLog body])
     \<and> (\<exists>dd. params s1 = (params s)\<lparr>originDepartureDate := dd\<rparr>)"
proof -
  from assms obtain dd where dd: "departureDate e fs i = Some dd"
    and s1: "s1 = sendRequest e a orig dest i (s\<lparr>params := (params s)\<lparr>originDepartureDate := dd\<rparr>\<rparr>)"
    by (rule dayStep_Normal)
  let ?s = "s\<lparr>params := (params s)\<lparr>originDepartureDate := dd\<rparr>\<rparr>"
  let ?url = "requestURL e ((params s)\<lparr>originDepartureDate := dd\<rparr>)"
  obtain logged where
    "events (sendRequest e a orig dest i ?s) = events ?s @ AxiosGet (requestURL e (params ?s)) (apikeyHeader e) # logged"
    "requestsOf logged = []" "mailsOf logged = []"
    "\<forall>body. axiosGet e i (requestURL e (params ?s)) = Rejected body \<longrightarrow> logged = [ConsoleLog body]"
    using sendRequest_events [of e a orig dest i ?s] by blast
  moreover have "dayURL e (params s) fs i = Some ?url"
    using dd by (simp add: dayURL_def)
  moreover have "params s1 = (params s)\<lparr>originDepartureDate := dd\<rparr>"
    using s1 by (simp add: sendRequest_params)
  ultimately show ?thesis using s1 by auto
qed

lemma daysLoop_requests:
  assumes "daysLoop e a orig dest fs is s = Normal s'"
  shows "map Some (requestsOf (events s')) = map Some (requestsOf (events s)) @ map (dayURL e (params s) fs) is
     \<and> mailsOf (events s') = mailsOf (events s)
     \<and> (\<exists>dd. params s' = (params s)\<lparr>originDepartureDate := dd\<rparr>)
     \<and> (\<exists>post. events s' = events s @ post)"
  using assms
proof (induction "is" arbitrary: s)
  case Nil
  then have "s' = s" by simp
  moreover have "\<exists>dd. params s = (params s)\<lparr>originDepartureDate := dd\<rparr>"
    by (rule exI [of _ "originDepartureDate (params s)"]) simp
  ultimately show ?case by simp
next
  case (Cons i "is")
  from Cons.prems obtain s1 where s1: "dayStep e a orig dest fs i s = Normal s1"
    and rest: "daysLoop e a orig dest fs is s1 = Normal s'"
    by (auto split: flow.splits)
  from dayStep_events [OF s1] obtain url logged dd where
    url: "dayURL e (params s) fs i = Some url"
    and ev: "events s1 = events s @ AxiosGet url (apikeyHeader e) # logged"
    and lg: "requestsOf logged = []" "mailsOf logged = []"
    and p1: "params s1 = (params s)\<lparr>originDepartureDate := dd\<rparr>"
    by blast
  from Cons.IH [OF rest] obtain dd' post where
    ih: "map Some (requestsOf (events s')) = map Some (requestsOf (events s1)) @ map (dayURL e (params s1) fs) is"
      "mailsOf (events s') = mailsOf (events s1)"
      "params s' = (params s1)\<lparr>originDepartureDate := dd'\<rparr>"
      "events s' = events s1 @ post"
    by blast
  have "map Some (requestsOf (events s')) = map Some (requestsOf (events s)) @ map (dayURL e (params s) fs) (i # is)"
    using ih(1) ev lg url p1 by (simp add: requestsOf_append)
  moreover have "mailsOf (events s') = mailsOf (events s)"
    using ih(2) ev lg by (simp add: mailsOf_append)
  moreover have "params s' = (params s)\<lparr>originDepartureDate := dd'\<rparr>"
    using ih(3) p1 by simp
  moreover have "events s' = events s @ (AxiosGet url (apikeyHeader e) # logged @ post)"
    using ih(4) ev by simp
  ultimately show ?case by blast
qed

lemma daysLoop_rejected:
  assumes "daysLoop e a orig dest fs is s = Normal s'"
    and "i \<in> set is"
    and "dayURL e (params s) fs i = Some url"
    and "axiosGet e i url = Rejected body"
  shows "\<exists>pre post. events s' = pre @ [AxiosGet url (apikeyHeader e), ConsoleLog body] @ post"
  using assms
proof (induction "is" arbitrary: s)
  case Nil
  then show ?case by simp
next
  case (Cons j "is")
  from Cons.prems(1) obtain s1 where s1: "dayStep e a orig dest fs j s = Normal s1"
    and rest: "daysLoop e a orig dest fs is s1 = Normal s'"
    by (auto split: flow.splits)
  from dayStep_events [OF s1] obtain url' logged dd where
    url': "dayURL e (params s) fs j = Some url'"
    and ev: "events s1 = events s @ AxiosGet url' (apikeyHeader e) # logged"
    and rej: "\<forall>body. axiosGet e j url' = Rejected body \<longrightarrow> logged = [ConsoleLog body]"
    and p1: "params s1 = (params s)\<lparr>originDepartureDate := dd\<rparr>"
    by blast
  show ?case
  proof (cases "i = j")
    case True
    with url' Cons.prems(3) have "url' = url" by simp
    with rej Cons.prems(4) True have "logged = [ConsoleLog body]" by simp
    with ev \<open>url' = url\<close> have "events s1 = events s @ [AxiosGet url (apikeyHeader e), ConsoleLog body]"
      by simp
    moreover from daysLoop_requests [OF rest] obtain post where "events s' = events s1 @ post"
      by blast
    ultimately have "events s' = events s @ [AxiosGet url (apikeyHeader e), ConsoleLog body] @ post"
      by simp
    then show ?thesis by blast
  next
    case False
    with Cons.prems(2) have "i \<in> set is" by simp
    moreover have "dayURL e (params s1) fs i = Some url"
      using Cons.prems(3) p1 by simp
    ultimately show ?thesis
      using Cons.IH [OF rest _ _ Cons.prems(4)] by blast
  qed
qed

section \<open>The whole run\<close>

lemma find_required:
  "find (\<lambda>k. \<not> hasArg a k) requiredArgs = None
   \<longleftrightarrow> origin a \<noteq> None \<and> destination a \<noteq> None \<and> start a \<noteq> None \<and> mail a \<noteq> None"
  by (auto simp: requiredArgs_def hasArg_def)

lemma main_Returned:
  assumes "main e a = (evs, Returned)"
  obtains orig dest st m h s' where
    "\<not> missingKey e"
    "origin a = Some orig" "destination a = Some dest" "start a = Some st" "mail a = Some m"
    "htmlHead e a orig dest (formatStart st) = Some h"
    "daysLoop e a orig dest (formatStart st) [0..<15] (initialScan a orig dest st h) = Normal s'"
    "evs = events s' @ mailEvents m s'"
proof -
  from assms have key: "\<not> missingKey e"
    by (auto simp: main_def split: if_splits)
  from assms key have nf: "find (\<lambda>k. \<not> hasArg a k) requiredArgs = None"
    by (auto simp: main_def missingArgument_def split: option.splits)
  then obtain orig dest st m where
    args: "origin a = Some orig" "destination a = Some dest" "start a = Some st" "mail a = Some m"
    by (auto simp: find_required)
  with assms key nf have cr: "crawl e a orig dest st m = (evs, Returned)"
    by (simp add: main_def)
  then obtain h where h: "htmlHead e a orig dest (formatStart st) = Some h"
    by (auto simp: crawl_def split: option.splits)
  with cr have fin: "finish m (daysLoop e a orig dest (formatStart st) [0..<15]
      (initialScan a orig dest st h)) = (evs, Returned)"
    by (simp add: crawl_def)
  then obtain s' where
    "daysLoop e a orig dest (formatStart st) [0..<15] (initialScan a orig dest st h) = Normal s'"
    "evs = events s' @ mailEvents m s'"
    by (cases "daysLoop e a orig dest (formatStart st) [0..<15] (initialScan a orig dest st h)") auto
  with key args h show ?thesis by (rule that)
qed

lemma requestsOf_mailEvents [simp]: "requestsOf (mailEvents m s) = []"
  by (simp add: mailEvents_def)

lemma main_requests:
  assumes "main e a = (evs, Returned)"
    and "origin a = Some orig" and "destination a = Some dest" and "start a = Some st"
  shows "map Some (requestsOf evs)
     = map (dayURL e (initialParams a orig dest st) (formatStart st)) [0..<15]"
proof -
  from assms(1) obtain orig' dest' st' m h s' where
    a: "origin a = Some orig'" "destination a = Some dest'" "start a = Some st'"
    and loop: "daysLoop e a orig' dest' (formatStart st') [0..<15] (initialScan a orig' dest' st' h) = Normal s'"
    and evs: "evs = events s' @ mailEvents m s'"
    by (rule main_Returned)
  from a assms(2-4) have [simp]: "orig' = orig" "dest' = dest" "st' = st" by simp_all
  from daysLoop_requests [OF loop] evs show ?thesis
    by (simp add: requestsOf_append initialScan_def)
qed


section \<open>Digits of a date\<close>














section \<open>The query string\<close>



section \<open>The loop over the offers\<close>





section \<open>Runs that return\<close>

lemma dateParse_axiosGet [simp]: "dateParse (e\<lparr>axiosGet := r\<rparr>) s = dateParse e s"
  by (simp add: dateParse_def split: option.splits)

lemma addDays_axiosGet [simp]: "addDays (e\<lparr>axiosGet := r\<rparr>) t n = addDays e t n"
  by (simp add: addDays_def setDate_def getDate_def LocalTime_def UTC_def)

lemma departureDate_axiosGet [simp]:
  "departureDate (e\<lparr>axiosGet := r\<rparr>) fs i = departureDate e fs i"
  by (simp add: departureDate_def split: option.splits)

lemma htmlHead_axiosGet:
  "htmlHead (e\<lparr>axiosGet := r\<rparr>) a orig dest fs = None \<longleftrightarrow> htmlHead e a orig dest fs = None"
  by (simp add: htmlHead_def formatDate_def)

lemma daysLoop_Normal_iff:
  "(\<exists>s'. daysLoop e a orig dest fs is s = Normal s') \<longleftrightarrow> (\<forall>i \<in> set is. departureDate e fs i \<noteq> None)"
proof (induction "is" arbitrary: s)
  case Nil
  then show ?case by simp
next
  case (Cons i "is")
  show ?case
  proof (cases "departureDate e fs i")
    case None
    then show ?thesis by (simp add: dayStep_def)
  next
    case (Some dd)
    then show ?thesis using Cons.IH by (simp add: dayStep_def)
  qed
qed

lemma main_Returned_iff:
  "snd (main e a) = Returned \<longleftrightarrow>
     \<not> missingKey e
     \<and> (\<exists>orig dest st m. origin a = Some orig \<and> destination a = Some dest \<and> start a = Some st
           \<and> mail a = Some m \<and> htmlHead e a orig dest (formatStart st) \<noteq> None
           \<and> (\<forall>i \<in> set [0..<15]. departureDate e (formatStart st) i \<noteq> None))"
proof (cases "missingKey e")
  case True
  then show ?thesis by (simp add: main_def)
next
  case False
  show ?thesis
  proof (cases "find (\<lambda>k. \<not> hasArg a k) requiredArgs")
    case (Some k)
    then have "\<not> (origin a \<noteq> None \<and> destination a \<noteq> None \<and> start a \<noteq> None \<and> mail a \<noteq> None)"
      using find_required [of a] by simp
    with False Some show ?thesis by (auto simp: main_def missingArgument_def)
  next
    case None
    then obtain orig dest st m where
      args: "origin a = Some orig" "destination a = Some dest" "start a = Some st" "mail a = Some m"
      by (auto simp: find_required)
    have run: "main e a = crawl e a orig dest st m"
      using False None args by (simp add: main_def)
    show ?thesis
    proof (cases "htmlHead e a orig dest (formatStart st)")
      case None
      with run False args show ?thesis by (simp add: crawl_def)
    next
      case (Some h)
      let ?loop = "daysLoop e a orig dest (formatStart st) [0..<15] (initialScan a orig dest st h)"
      have "snd (finish m ?loop) = Returned \<longleftrightarrow> (\<exists>s'. ?loop = Normal s')"
        by (cases ?loop) auto
      with run False args Some show ?thesis
        by (simp add: crawl_def daysLoop_Normal_iff)
    qed
  qed
qed

lemma main_Returned_axiosGet:
  "snd (main (e\<lparr>axiosGet := r\<rparr>) a) = Returned \<longleftrightarrow> snd (main e a) = Returned"
  by (simp add: main_Returned_iff htmlHead_axiosGet missingKey_def)

section \<open>The row of an admitted offer\<close>


section \<open>What decides the mail\<close>

lemma tryCatch_hasResults:
  "hasResults (tryCatch e a orig dest r s)
   \<longleftrightarrow> hasResults s \<or> (\<exists>fs. r = Resolved (FlightOffer fs) \<and> fs \<noteq> [])"
proof (cases r)
  case (Rejected body)
  then show ?thesis by (simp add: emit_def)
next
  case (Resolved d)
  show ?thesis
  proof (cases d)
    case NoFlightOffer
    with Resolved show ?thesis by (simp add: emit_def)
  next
    case (FlightOffer fs)
    let ?s0 = "if fs \<noteq> [] then s\<lparr>hasResults := True\<rparr> else s"
    have "hasResults (stateOf (offersLoop e a orig dest fs ?s0)) = hasResults ?s0"
      using offersLoop_frame [of e a orig dest fs ?s0] by simp
    with Resolved FlightOffer show ?thesis
      by (cases "offersLoop e a orig dest fs ?s0") (auto simp: emit_def)
  qed
qed

lemma sendRequest_hasResults:
  "hasResults (sendRequest e a orig dest i s)
   \<longleftrightarrow> hasResults s
       \<or> (\<exists>fs. axiosGet e i (requestURL e (params s)) = Resolved (FlightOffer fs) \<and> fs \<noteq> [])"
  by (simp add: sendRequest_def tryCatch_hasResults emit_def)

lemma daysLoop_hasResults:
  assumes "daysLoop e a orig dest fs is s = Normal s'"
  shows "hasResults s'
   \<longleftrightarrow> hasResults s
       \<or> (\<exists>i \<in> set is. \<exists>url offers. dayURL e (params s) fs i = Some url
             \<and> axiosGet e i url = Resolved (FlightOffer offers) \<and> offers \<noteq> [])"
  using assms
proof (induction "is" arbitrary: s)
  case Nil
  then show ?case by simp
next
  case (Cons i "is")
  from Cons.prems obtain s1 where s1: "dayStep e a orig dest fs i s = Normal s1"
    and rest: "daysLoop e a orig dest fs is s1 = Normal s'"
    by (auto split: flow.splits)
  from s1 obtain dd where dd: "departureDate e fs i = Some dd"
    and s1_eq: "s1 = sendRequest e a orig dest i (s\<lparr>params := (params s)\<lparr>originDepartureDate := dd\<rparr>\<rparr>)"
    by (rule dayStep_Normal)
  let ?url = "requestURL e ((params s)\<lparr>originDepartureDate := dd\<rparr>)"
  have url: "dayURL e (params s) fs i = Some ?url"
    using dd by (simp add: dayURL_def)
  have h1: "hasResults s1 \<longleftrightarrow> hasResults s
      \<or> (\<exists>offers. axiosGet e i ?url = Resolved (FlightOffer offers) \<and> offers \<noteq> [])"
    unfolding s1_eq by (simp add: sendRequest_hasResults)
  have p1: "params s1 = (params s)\<lparr>originDepartureDate := dd\<rparr>"
    unfolding s1_eq by (simp add: sendRequest_params)
  have "hasResults s' \<longleftrightarrow> hasResults s1
      \<or> (\<exists>j \<in> set is. \<exists>url offers. dayURL e (params s) fs j = Some url
             \<and> axiosGet e j url = Resolved (FlightOffer offers) \<and> offers \<noteq> [])"
    using Cons.IH [OF rest] p1 by simp
  with h1 url show ?case by auto
qed

text \<open>
  In a run that returns, at most one mail is sent, and one is sent exactly when the
  response of some day held a non-empty \<open>flightOffer\<close> array, whether or not the
  filter admitted any of its offers.
\<close>

lemma mail_sent_iff:
  assumes "main e a = (evs, Returned)"
    and "origin a = Some orig" and "destination a = Some dest" and "start a = Some st"
  shows "length (mailsOf evs) \<le> 1
     \<and> (mailsOf evs \<noteq> []
          \<longleftrightarrow> (\<exists>i < 15. \<exists>url offers.
                 dayURL e (initialParams a orig dest st) (formatStart st) i = Some url
                 \<and> axiosGet e i url = Resolved (FlightOffer offers) \<and> offers \<noteq> []))"
proof -
  from assms(1) obtain orig' dest' st' m h s' where
    a: "origin a = Some orig'" "destination a = Some dest'" "start a = Some st'"
    and loop: "daysLoop e a orig' dest' (formatStart st') [0..<15] (initialScan a orig' dest' st' h) = Normal s'"
    and evs: "evs = events s' @ mailEvents m s'"
    by (rule main_Returned)
  from a assms(2-4) have same [simp]: "orig' = orig" "dest' = dest" "st' = st" by simp_all
  have "mailsOf (events s') = []"
    using daysLoop_requests [OF loop] by (simp add: initialScan_def)
  with evs have mails: "mailsOf evs = mailsOf (mailEvents m s')"
    by (simp add: mailsOf_append)
  have "hasResults s' \<longleftrightarrow> (\<exists>i \<in> set [0..<15]. \<exists>url offers.
                 dayURL e (initialParams a orig dest st) (formatStart st) i = Some url
                 \<and> axiosGet e i url = Resolved (FlightOffer offers) \<and> offers \<noteq> [])"
    using daysLoop_hasResults [OF loop] by (simp add: initialScan_def)
  then have "hasResults s' \<longleftrightarrow> (\<exists>i < 15. \<exists>url offers.
                 dayURL e (initialParams a orig dest st) (formatStart st) i = Some url
                 \<and> axiosGet e i url = Resolved (FlightOffer offers) \<and> offers \<noteq> [])"
    by auto
  with mails show ?thesis by (auto simp: mailEvents_def)
qed

section \<open>Running the samples\<close>

text \<open>The equations that evaluate the model on concrete inputs.\<close>

lemma replicate_numeral_Cons: "replicate (numeral k) x = x # replicate (pred_numeral k) x"
  by (simp add: numeral_eq_Suc)

lemmas calendar_defs = daysFromCivil_def daysFromMarch_def marchYear_def marchMonth_def
  dayOfEra_def yearOfEra_def yearOfEraAt_def dayOfYearAt_def marchMonthAt_def civilMonth_def
  dateAt_def civilYear_def dayOfMarchYear_def MonthFromDay_def DateFromDay_def YearFromDay_def
  msPerDay_def Day_def TimeWithinDay_def

lemmas date_defs = parseIsoDate_def isoFields_def isDigit_def digitsVal_def digitVal_def
  daysInMonth_def isLeap_def toISOString_def isoDatePart_def isoTimePart_def isoYear_def
  padStart_def showNat.simps digitChar_def dateParse_def LocalTime_def UTC_def getDate_def
  MakeDay_def MakeDate_def setDate_def setLocalDate_def addDays_def TimeClip_def
  isoDateDigits_def formatDate_def replicate_numeral_Cons

lemmas conversion_defs = numberToString_def showInt_def strToNumber_def trimmedToNumber_def
  trim_def isSpace_def stripLeadingZero_def replaceAll.simps formatStart.simps

lemmas crawler_defs = hasArg_def requiredArgs_def API_URL_def adults'_def children'_def
  initialParams_def entries_def queryPart_def query_def requestURL_def apikeyHeader_def
  maxPrice_def hourRangeStart_def hourRangeEnd_def departureHour_def outsideHours_def nl_def
  link_def textRowOf_def textRow_def htmlRowOf_def htmlRow_def htmlHeadOf_def htmlHead_def
  htmlFoot_def sendMail_def emit_def sendRequest_def dayStep_def mailer_def mailEvents_def
  initialScan_def crawl_def missingKey_def missingArgument_def main_def

lemmas sample_defs = sampleTimes_def sampleHour_def noNumber_def noFraction_def zoneUTC_def
  zoneParis2024_def sampleFlight_def dearFlight_def lateFlight_def noArrival_def quietDays_def
  dearDays_def noArrivalDays_def sampleEnv_def sampleArgs_def narrowArgs_def sampleURL_def
  sampleDays_def sampleHead_def dearEnv_def noArrivalEnv_def
  parisEnv_def dearEvents_def noArrivalEvents_def noArrivalRow_def sampleMail_def brokenDays_def
  brokenEnv_def brokenStart_def sampleRow_def sampleHtmlRow_def brokenSeen_def marchArgs_def parisDays_def sampleEnd_def

lemma days15: "[0..<15] = [0, 1, 2, 3, 4, 5, 6, 7, 8, 9, 10, 11, 12, 13, 14]"
  by (simp add: upt_rec)



lemma utc_dates:
  assumes "LocalTZA e = zoneUTC" and "parseOther e = sampleTimes"
  shows "departureDate e ''2024-06-01'' 0 = Some ''20240601'' \<and>
     departureDate e ''2024-06-01'' (Suc 0) = Some ''20240602'' \<and>
     departureDate e ''2024-06-01'' 2 = Some ''20240603'' \<and>
     departureDate e ''2024-06-01'' 3 = Some ''20240604'' \<and>
     departureDate e ''2024-06-01'' 4 = Some ''20240605'' \<and>
     departureDate e ''2024-06-01'' 5 = Some ''20240606'' \<and>
     departureDate e ''2024-06-01'' 6 = Some ''20240607'' \<and>
     departureDate e ''2024-06-01'' 7 = Some ''20240608'' \<and>
     departureDate e ''2024-06-01'' 8 = Some ''20240609'' \<and>
     departureDate e ''2024-06-01'' 9 = Some ''20240610'' \<and>
     departureDate e ''2024-06-01'' 10 = Some ''20240611'' \<and>
     departureDate e ''2024-06-01'' 11 = Some ''20240612'' \<and>
     departureDate e ''2024-06-01'' 12 = Some ''20240613'' \<and>
     departureDate e ''2024-06-01'' 13 = Some ''20240614'' \<and>
     departureDate e ''2024-06-01'' 14 = Some ''20240615''"
  using assms by (simp add: departureDate_def date_defs calendar_defs sample_defs)

lemma main_from_loop:
  assumes "\<not> missingKey e"
    and "origin a = Some orig" and "destination a = Some dest" and "start a = Some st"
    and "mail a = Some m"
    and "htmlHead e a orig dest (formatStart st) = Some h"
    and "daysLoop e a orig dest (formatStart st) [0..<15] (initialScan a orig dest st h) = Normal s'"
  shows "main e a = (events s' @ mailEvents m s', Returned)"
proof -
  have "find (\<lambda>k. \<not> hasArg a k) requiredArgs = None"
    using assms(2-5) by (simp add: find_required)
  then show ?thesis using assms by (simp add: main_def crawl_def)
qed

lemma sample_start: "formatStart ''20240601'' = ''2024-06-01''"
  by (simp add: formatStart.simps isDigit_def)

lemma sample_head:
  assumes "LocalTZA e = zoneUTC" and "parseOther e = sampleTimes" and "formatFull e = toISOString"
  shows "htmlHead e sampleArgs ''ORY'' ''LIS'' ''2024-06-01'' = Some sampleHead"
  using assms
  by (simp add: htmlHead_def sampleHead_def adults'_def children'_def sampleArgs_def
      date_defs calendar_defs conversion_defs)

lemma dear_loop:
  "daysLoop dearEnv sampleArgs ''ORY'' ''LIS'' ''2024-06-01'' [0..<15]
     (initialScan sampleArgs ''ORY'' ''LIS'' ''20240601'' sampleHead)
   = Normal (sampleEnd [] sampleHead True dearEvents)"
  by (simp add: days15 utc_dates crawler_defs conversion_defs sample_defs showNat.simps digitChar_def)

lemma sample_env_facts:
  "\<not> missingKey dearEnv" "\<not> missingKey noArrivalEnv"
  "LocalTZA dearEnv = zoneUTC" "parseOther dearEnv = sampleTimes" "formatFull dearEnv = toISOString"
  "LocalTZA noArrivalEnv = zoneUTC" "parseOther noArrivalEnv = sampleTimes"
  "formatFull noArrivalEnv = toISOString"
  "apikeyHeader dearEnv = ''KEY''"
  by (simp_all add: missingKey_def apikeyHeader_def dearEnv_def noArrivalEnv_def sampleEnv_def)

lemma sample_args_facts:
  "origin sampleArgs = Some ''ORY''" "destination sampleArgs = Some ''LIS''"
  "start sampleArgs = Some ''20240601''" "mail sampleArgs = Some ''me@example.org''"
  by (simp_all add: sampleArgs_def)

lemma sample_mailEvents:
  "mailEvents ''me@example.org'' (sampleEnd txt html True evs)
   = [SendMail (sampleMail txt (html @ htmlFoot)),
      ConsoleLogText (''Mail bien envoy'' @ [CHR 0xE9] @ '' !'')]"
  by (simp add: mailEvents_def sampleEnd_def sampleMail_def sendMail_def mailer_def)

lemma dear_main:
  "main dearEnv sampleArgs
   = (dearEvents @ [SendMail (sampleMail [] (sampleHead @ htmlFoot)),
                    ConsoleLogText (''Mail bien envoy'' @ [CHR 0xE9] @ '' !'')], Returned)"
proof -
  have h: "htmlHead dearEnv sampleArgs ''ORY'' ''LIS'' (formatStart ''20240601'') = Some sampleHead"
    using sample_head [OF sample_env_facts(3,4,5)] by (simp add: sample_start)
  have l: "daysLoop dearEnv sampleArgs ''ORY'' ''LIS'' (formatStart ''20240601'') [0..<15]
     (initialScan sampleArgs ''ORY'' ''LIS'' ''20240601'' sampleHead)
     = Normal (sampleEnd [] sampleHead True dearEvents)"
    using dear_loop by (simp only: sample_start)
  have "events (sampleEnd [] sampleHead True dearEvents) = dearEvents"
    by (simp add: sampleEnd_def)
  with main_from_loop [OF sample_env_facts(1) sample_args_facts h l] sample_mailEvents
  show ?thesis by simp
qed

lemma noArrival_loop:
  "daysLoop noArrivalEnv sampleArgs ''ORY'' ''LIS'' ''2024-06-01'' [0..<15]
     (initialScan sampleArgs ''ORY'' ''LIS'' ''20240601'' sampleHead)
   = Normal (sampleEnd noArrivalRow sampleHead True noArrivalEvents)"
  by (simp add: days15 utc_dates crawler_defs conversion_defs date_defs calendar_defs sample_defs)

lemma noArrival_main:
  "main noArrivalEnv sampleArgs
   = (noArrivalEvents @ [SendMail (sampleMail noArrivalRow (sampleHead @ htmlFoot)),
                         ConsoleLogText (''Mail bien envoy'' @ [CHR 0xE9] @ '' !'')], Returned)"
proof -
  have h: "htmlHead noArrivalEnv sampleArgs ''ORY'' ''LIS'' (formatStart ''20240601'') = Some sampleHead"
    using sample_head [OF sample_env_facts(6,7,8)] by (simp add: sample_start)
  have l: "daysLoop noArrivalEnv sampleArgs ''ORY'' ''LIS'' (formatStart ''20240601'') [0..<15]
     (initialScan sampleArgs ''ORY'' ''LIS'' ''20240601'' sampleHead)
     = Normal (sampleEnd noArrivalRow sampleHead True noArrivalEvents)"
    using noArrival_loop by (simp only: sample_start)
  have "events (sampleEnd noArrivalRow sampleHead True noArrivalEvents) = noArrivalEvents"
    by (simp add: sampleEnd_def)
  with main_from_loop [OF sample_env_facts(2) sample_args_facts h l] sample_mailEvents
  show ?thesis by simp
qed

lemma requestsOf_dearEvents: "requestsOf dearEvents = map sampleURL sampleDays"
  by (simp add: dearEvents_def sampleDays_def)

lemma mailsOf_dearEvents: "mailsOf dearEvents = []"
  by (simp add: dearEvents_def sampleDays_def)

lemma mailsOf_noArrivalEvents: "mailsOf noArrivalEvents = []"
  by (simp add: noArrivalEvents_def sampleDays_def)

lemma paris_dates:
  "departureDate parisEnv ''2024-03-25'' 6 = Some ''20240331''"
  "departureDate parisEnv ''2024-03-25'' 7 = Some ''20240331''"
  "departureDate sampleEnv ''2024-03-25'' 7 = Some ''20240401''"
  "isoDateDigits ((daysFromCivil 2024 3 25 + 7) * msPerDay) = ''20240401''"
  by (simp_all add: departureDate_def date_defs calendar_defs sample_defs)

lemma paris_window:
  "departureDate parisEnv ''2024-03-25'' 0 = Some ''20240325'' \<and>
     departureDate parisEnv ''2024-03-25'' (Suc 0) = Some ''20240326'' \<and>
     departureDate parisEnv ''2024-03-25'' 2 = Some ''20240327'' \<and>
     departureDate parisEnv ''2024-03-25'' 3 = Some ''20240328'' \<and>
     departureDate parisEnv ''2024-03-25'' 4 = Some ''20240329'' \<and>
     departureDate parisEnv ''2024-03-25'' 5 = Some ''20240330'' \<and>
     departureDate parisEnv ''2024-03-25'' 6 = Some ''20240331'' \<and>
     departureDate parisEnv ''2024-03-25'' 7 = Some ''20240331'' \<and>
     departureDate parisEnv ''2024-03-25'' 8 = Some ''20240401'' \<and>
     departureDate parisEnv ''2024-03-25'' 9 = Some ''20240402'' \<and>
     departureDate parisEnv ''2024-03-25'' 10 = Some ''20240403'' \<and>
     departureDate parisEnv ''2024-03-25'' 11 = Some ''20240404'' \<and>
     departureDate parisEnv ''2024-03-25'' 12 = Some ''20240405'' \<and>
     departureDate parisEnv ''2024-03-25'' 13 = Some ''20240406'' \<and>
     departureDate parisEnv ''2024-03-25'' 14 = Some ''20240407''"
  by (simp add: departureDate_def date_defs calendar_defs sample_defs)

lemma paris_requests:
  "requestsOf (fst (main parisEnv marchArgs)) = map sampleURL parisDays
   \<and> snd (main parisEnv marchArgs) = Returned"
proof -
  have args: "origin marchArgs = Some ''ORY''" "destination marchArgs = Some ''LIS''"
    "start marchArgs = Some ''20240325''" "mail marchArgs = Some ''me@example.org''"
    by (simp_all add: marchArgs_def sampleArgs_def)
  have fs: "formatStart ''20240325'' = ''2024-03-25''"
    by (simp add: formatStart.simps isDigit_def)
  have key: "\<not> missingKey parisEnv"
    by (simp add: missingKey_def parisEnv_def sampleEnv_def)
  have head: "htmlHead parisEnv marchArgs ''ORY'' ''LIS'' ''2024-03-25'' \<noteq> None"
    by (simp add: htmlHead_def date_defs calendar_defs sample_defs)
  have "\<forall>i \<in> set [0..<15]. departureDate parisEnv ''2024-03-25'' i \<noteq> None"
    using paris_window by (simp add: days15)
  with key args fs head have ret: "snd (main parisEnv marchArgs) = Returned"
    by (simp only: main_Returned_iff) simp
  then have run: "main parisEnv marchArgs = (fst (main parisEnv marchArgs), Returned)"
    by (cases "main parisEnv marchArgs") simp
  have "map (dayURL parisEnv (initialParams marchArgs ''ORY'' ''LIS'' ''20240325'') ''2024-03-25'')
          [0..<15] = map Some (map sampleURL parisDays)"
    using paris_window
    by (simp add: days15 dayURL_def requestURL_def query_def entries_def queryPart_def
        initialParams_def adults'_def children'_def marchArgs_def sampleArgs_def sampleURL_def
        parisDays_def API_URL_def numberToString_def showInt_def showNat.simps digitChar_def)
  with main_requests [OF run args(1,2,3)] fs
  have "map Some (requestsOf (fst (main parisEnv marchArgs))) = map Some (map sampleURL parisDays)"
    by simp
  then have "requestsOf (fst (main parisEnv marchArgs)) = map sampleURL parisDays"
    by (rule map_injective) (rule inj_Some)
  with ret show ?thesis by simp
qed

section \<open>The claims\<close>

text \<open>
  C1 fails on the code: \<open>hasResults\<close> is set as soon as a response holds an offer,
  before the filter (\<open>mail_sent_iff\<close> above says when the mail is sent).  In this run
  the only offer returned costs 2000 per passenger, twice the default maximum: the
  filter admits nothing, on any state, and yet the mail is sent, with an empty text and
  a table without rows.
\<close>

theorem C1_mail_without_admitted_offer:
  "(\<forall>s. offerStep dearEnv sampleArgs ''ORY'' ''LIS'' s (Offer dearFlight) = Normal s)
   \<and> mailsOf (fst (main dearEnv sampleArgs)) = [sampleMail [] (sampleHead @ htmlFoot)]
   \<and> snd (main dearEnv sampleArgs) = Returned"
proof -
  have "offerStep dearEnv sampleArgs ''ORY'' ''LIS'' s (Offer dearFlight) = Normal s" for s
    by (simp add: maxPrice_def dearFlight_def sampleFlight_def sampleArgs_def)
  then show ?thesis
    by (simp add: dear_main mailsOf_append mailsOf_dearEvents)
qed






text \<open>
  C4 fails on the code where the local time zone changes its offset inside the window:
  \<open>addDays\<close> moves the date in local time (\<open>getDate\<close>, \<open>setDate\<close>) and the result is
  read back in UTC (\<open>toISOString\<close>).  In Paris, from the start date 20240325, the
  offsets 6 and 7 both give 20240331, while the start date plus 7 days is 20240401, as
  the same computation gives in UTC.  The run asks twice for 20240331 and never for
  20240408, the last day of the window.
\<close>

theorem C4_paris_repeats_a_day:
  "formatStart ''20240325'' = ''2024-03-25''
   \<and> departureDate parisEnv ''2024-03-25'' 6 = Some ''20240331''
   \<and> departureDate parisEnv ''2024-03-25'' 7 = Some ''20240331''
   \<and> isoDateDigits ((daysFromCivil 2024 3 25 + 7) * msPerDay) = ''20240401''
   \<and> departureDate sampleEnv ''2024-03-25'' 7 = Some ''20240401''
   \<and> requestsOf (fst (main parisEnv marchArgs)) = map sampleURL parisDays"
  by (simp add: paris_dates paris_requests formatStart.simps isDigit_def)

text \<open>
  C5 fails on the code for the HTML body.  The offer of this run passes the filter, but
  its arrival time is no date: its row is appended to the text, then formatting the
  arrival time for the HTML row throws.  One mail is sent; its text holds the row of
  the offer and its table holds no row.
\<close>

theorem C5_mail_lacks_html_row:
  "mailsOf (fst (main noArrivalEnv sampleArgs))
     = [sampleMail noArrivalRow (sampleHead @ htmlFoot)]
   \<and> noArrivalRow \<noteq> []"
  by (simp add: noArrival_main mailsOf_append mailsOf_noArrivalEvents noArrivalRow_def
      textRowOf_def)




text \<open>
  C7.  In a run that returns, the requests are exactly those of the days 0 to 14, in
  this order, one for each day, whatever the responses are: no day is skipped and no
  request is sent twice.  When the request of a day fails, the body of the error
  response is printed right after the request.  Whether the run returns does not
  depend on the responses.
\<close>

theorem C7_failed_day_is_logged_and_skipped:
  assumes "main e a = (evs, Returned)"
    and "origin a = Some orig" and "destination a = Some dest" and "start a = Some st"
  shows "map Some (requestsOf evs)
         = map (dayURL e (initialParams a orig dest st) (formatStart st)) [0..<15]
     \<and> (\<forall>i < 15. \<forall>url body.
           dayURL e (initialParams a orig dest st) (formatStart st) i = Some url
           \<and> axiosGet e i url = Rejected body
           \<longrightarrow> (\<exists>pre post. evs = pre @ [AxiosGet url (apikeyHeader e), ConsoleLog body] @ post))
     \<and> (\<forall>r. snd (main (e\<lparr>axiosGet := r\<rparr>) a) = Returned)"
proof -
  from assms(1) obtain orig' dest' st' m h s' where
    a: "origin a = Some orig'" "destination a = Some dest'" "start a = Some st'"
    and loop: "daysLoop e a orig' dest' (formatStart st') [0..<15] (initialScan a orig' dest' st' h) = Normal s'"
    and evs: "evs = events s' @ mailEvents m s'"
    by (rule main_Returned)
  from a assms(2-4) have same [simp]: "orig' = orig" "dest' = dest" "st' = st" by simp_all
  have p0: "params (initialScan a orig dest st h) = initialParams a orig dest st"
    by (simp add: initialScan_def)
  have "\<exists>pre post. evs = pre @ [AxiosGet url (apikeyHeader e), ConsoleLog body] @ post"
    if "i < 15" "dayURL e (initialParams a orig dest st) (formatStart st) i = Some url"
      "axiosGet e i url = Rejected body" for i url body
  proof -
    from that(1) have "i \<in> set [0..<15]" by simp
    from daysLoop_rejected [OF loop [simplified same] this _ that(3)] that(2) p0
    obtain pre post where "events s' = pre @ [AxiosGet url (apikeyHeader e), ConsoleLog body] @ post"
      by auto
    with evs have "evs = pre @ [AxiosGet url (apikeyHeader e), ConsoleLog body] @ (post @ mailEvents m s')"
      by simp
    then show ?thesis by blast
  qed
  moreover have "snd (main (e\<lparr>axiosGet := r\<rparr>) a) = Returned" for r
    using assms(1) by (simp add: main_Returned_axiosGet)
  ultimately show ?thesis using main_requests [OF assms] by blast
qed

theorem C7_failed_day_witness:
  "main dearEnv sampleArgs
     = (dearEvents @ [SendMail (sampleMail [] (sampleHead @ htmlFoot)),
                      ConsoleLogText (''Mail bien envoy'' @ [CHR 0xE9] @ '' !'')], Returned)
   \<and> axiosGet dearEnv 1 (sampleURL ''20240602'') = Rejected (Some ''Too Many Requests'')
   \<and> requestsOf (fst (main dearEnv sampleArgs)) = map sampleURL sampleDays
   \<and> (\<exists>pre post. fst (main dearEnv sampleArgs)
         = pre @ [AxiosGet (sampleURL ''20240602'') ''KEY'',
                  ConsoleLog (Some ''Too Many Requests'')] @ post)
   \<and> snd (main (dearEnv\<lparr>axiosGet := quietDays\<rparr>) sampleArgs) = Returned"
proof -
  let ?p = "initialParams sampleArgs ''ORY'' ''LIS'' ''20240601''"
  note c7 = C7_failed_day_is_logged_and_skipped [OF dear_main sample_args_facts(1,2,3)]
  have rej: "axiosGet dearEnv 1 (sampleURL ''20240602'') = Rejected (Some ''Too Many Requests'')"
    by (simp add: dearEnv_def dearDays_def)
  have url: "dayURL dearEnv ?p (formatStart ''20240601'') 1 = Some (sampleURL ''20240602'')"
    using utc_dates [OF sample_env_facts(3,4)]
    by (simp add: dayURL_def sample_start requestURL_def query_def entries_def queryPart_def
        initialParams_def adults'_def children'_def sampleArgs_def sampleURL_def API_URL_def
        dearEnv_def numberToString_def showInt_def showNat.simps digitChar_def)
  from c7 have "\<exists>pre post. dearEvents @ [SendMail (sampleMail [] (sampleHead @ htmlFoot)),
                      ConsoleLogText (''Mail bien envoy'' @ [CHR 0xE9] @ '' !'')]
      = pre @ [AxiosGet (sampleURL ''20240602'') (apikeyHeader dearEnv),
               ConsoleLog (Some ''Too Many Requests'')] @ post"
    using url rej by (elim conjE allE [of _ 1] allE [of _ "sampleURL ''20240602''"]
        allE [of _ "Some ''Too Many Requests''"]) simp
  moreover from c7 have "snd (main (dearEnv\<lparr>axiosGet := quietDays\<rparr>) sampleArgs) = Returned"
    by blast
  ultimately show ?thesis
    using rej by (simp add: dear_main requestsOf_append requestsOf_dearEvents sample_env_facts(9))
qed

text \<open>
  C8 fails on the code.  The two appends of one admission are separate statements, and
  the second, for the HTML row, formats the arrival time, which throws when that time
  is no date.  After the scan of this run the text report holds the row of the offer
  and the HTML report holds its head alone.  The failing input and the defect are those
  of C5.
\<close>

theorem C8_text_row_without_html_row:
  "daysLoop noArrivalEnv sampleArgs ''ORY'' ''LIS'' ''2024-06-01'' [0..<15]
     (initialScan sampleArgs ''ORY'' ''LIS'' ''20240601'' sampleHead)
     = Normal (sampleEnd noArrivalRow sampleHead True noArrivalEvents)
   \<and> mailText (sampleEnd noArrivalRow sampleHead True noArrivalEvents) = noArrivalRow
   \<and> mailHTML (sampleEnd noArrivalRow sampleHead True noArrivalEvents) = sampleHead
   \<and> noArrivalRow \<noteq> []"
  by (simp add: noArrival_loop sampleEnd_def noArrivalRow_def textRowOf_def)



text \<open>
  C10.  After the fifteen iterations the parameters differ from those before the loop
  in \<open>originDepartureDate\<close> at most: origin, destination, \<open>directFlight\<close>, adults,
  children and hour range are the same.  The request of each day is built from the
  parameters before the loop with the date of that day in place of the date.
\<close>

theorem C10_only_the_date_changes:
  assumes "daysLoop e a orig dest fs [0..<15] s = Normal s'"
  shows "q_origin (params s') = q_origin (params s)
     \<and> q_destination (params s') = q_destination (params s)
     \<and> directFlight (params s') = directFlight (params s)
     \<and> q_adults (params s') = q_adults (params s)
     \<and> q_children (params s') = q_children (params s)
     \<and> q_hourRange (params s') = q_hourRange (params s)
     \<and> map Some (requestsOf (events s'))
         = map Some (requestsOf (events s)) @ map (dayURL e (params s) fs) [0..<15]"
proof -
  from daysLoop_requests [OF assms] obtain dd where
    "params s' = (params s)\<lparr>originDepartureDate := dd\<rparr>"
    and "map Some (requestsOf (events s'))
         = map Some (requestsOf (events s)) @ map (dayURL e (params s) fs) [0..<15]"
    by blast
  then show ?thesis by simp
qed

theorem C10_only_the_date_changes_witness:
  "daysLoop dearEnv sampleArgs ''ORY'' ''LIS'' ''2024-06-01'' [0..<15]
     (initialScan sampleArgs ''ORY'' ''LIS'' ''20240601'' sampleHead)
     = Normal (sampleEnd [] sampleHead True dearEvents)
   \<and> q_hourRange (params (sampleEnd [] sampleHead True dearEvents)) = ''0-24''
   \<and> q_children (params (sampleEnd [] sampleHead True dearEvents)) = 0
   \<and> map Some (requestsOf dearEvents)
       = map (dayURL dearEnv (initialParams sampleArgs ''ORY'' ''LIS'' ''20240601'') ''2024-06-01'')
           [0..<15]"
  using C10_only_the_date_changes [OF dear_loop] dear_loop
  by (simp add: sampleEnd_def initialScan_def initialParams_def children'_def sampleArgs_def)

end
